theory Spec2Isabelle
  imports Complex_Main
begin

section \<open>JavaScript values\<close>

text \<open>
  The handlers of \<^verbatim>\<open>app.js\<close> move JSON payloads around: they read properties of the
  request body, test them for truthiness, build object literals (with spread) and hand
  an object to \<^verbatim>\<open>res.json\<close>. A number is an IEEE double: the two infinities and NaN
  apart, its value is a real number (\<^verbatim>\<open>-0\<close> and \<^verbatim>\<open>0\<close> are both \<open>Num 0\<close>; the handlers
  only test numbers for truthiness and never compute with a number they received).
\<close>

datatype jsnum = NaN | Infinity | NegInfinity | Num real

datatype jsval =
    JUndefined
  | JNull
  | JBool bool
  | JNum jsnum
  | JStr string
  | JArr "jsval list"
  | JObj "(string \<times> jsval) list"
  | JServerTimestamp  \<comment> \<open>the sentinel \<^verbatim>\<open>admin.firestore.FieldValue.serverTimestamp()\<close>\<close>

text \<open>
  An object is the list of its properties in the order they were written. Where a key is
  written twice the later binding is the object's value, as in an object literal and in
  \<^verbatim>\<open>JSON.parse\<close>.
\<close>

type_synonym jsobj = "(string \<times> jsval) list"

fun lookup :: "jsobj \<Rightarrow> string \<Rightarrow> jsval option" where
  "lookup [] k = None"
| "lookup ((k', v) # kvs) k =
     (case lookup kvs k of
        Some w \<Rightarrow> Some w
      | None \<Rightarrow> (if k = k' then Some v else None))"

text \<open>\<^verbatim>\<open>obj.k\<close>: reading a property the object does not have gives \<^verbatim>\<open>undefined\<close>.\<close>

definition get :: "jsobj \<Rightarrow> string \<Rightarrow> jsval" where
  "get obj k = (case lookup obj k of None \<Rightarrow> JUndefined | Some v \<Rightarrow> v)"

definition has :: "jsobj \<Rightarrow> string \<Rightarrow> bool" where
  "has obj k = (lookup obj k \<noteq> None)"

text \<open>
  \<^verbatim>\<open>obj.k = v\<close>, also the step of an object literal or of a spread: an existing property
  keeps its place and takes the new value, a new one goes last.
\<close>

definition put :: "string \<Rightarrow> jsval \<Rightarrow> jsobj \<Rightarrow> jsobj" where
  "put k v obj =
     (if k \<in> fst ` set obj
      then map (\<lambda>(k', v'). if k' = k then (k', v) else (k', v')) obj
      else obj @ [(k, v)])"

text \<open>\<^verbatim>\<open>{ ...target, ...src }\<close> copies the properties of \<open>src\<close> onto \<open>target\<close> one by one.\<close>

definition spread :: "jsobj \<Rightarrow> jsobj \<Rightarrow> jsobj" where
  "spread target src = foldl (\<lambda>obj (k, v). put k v obj) target src"

text \<open>Property access on a value: \<^verbatim>\<open>student.id\<close>. Only objects are read this way here.\<close>

fun field :: "jsval \<Rightarrow> string \<Rightarrow> jsval" where
  "field (JObj obj) k = get obj k"
| "field _ k = JUndefined"

text \<open>
  Truthiness, as \<^verbatim>\<open>!x\<close> and \<^verbatim>\<open>x || y\<close> test it: \<^verbatim>\<open>undefined\<close>, \<^verbatim>\<open>null\<close>, \<^verbatim>\<open>false\<close>,
  \<^verbatim>\<open>0\<close>, \<^verbatim>\<open>NaN\<close> and the empty string are falsy, everything else is truthy.
\<close>

fun truthy :: "jsval \<Rightarrow> bool" where
  "truthy JUndefined = False"
| "truthy JNull = False"
| "truthy (JBool b) = b"
| "truthy (JNum n) = (n \<noteq> NaN \<and> n \<noteq> Num 0)"
| "truthy (JStr s) = (s \<noteq> [])"
| "truthy (JArr _) = True"
| "truthy (JObj _) = True"
| "truthy JServerTimestamp = True"

text \<open>\<^verbatim>\<open>a || b\<close>\<close>

definition or_else :: "jsval \<Rightarrow> jsval \<Rightarrow> jsval" where
  "or_else a b = (if truthy a then a else b)"

text \<open>
  String conversion, as a template literal \<^verbatim>\<open>`${x}`\<close> does it. It throws a TypeError
  when it finds no string for \<open>x\<close>. An object parsed from JSON has one (the inherited
  \<^verbatim>\<open>toString\<close>) unless a property of its own named \<^verbatim>\<open>toString\<close> hides it: that property
  is data, not a function, and \<^verbatim>\<open>valueOf\<close> gives back the object. An array joins the
  strings of its elements. Every other value has a string.
\<close>

fun printable :: "jsval \<Rightarrow> bool" where
  "printable (JObj obj) = (\<not> has obj ''toString'')"
| "printable (JArr xs) = list_all printable xs"
| "printable _ = True"

datatype js_error = TypeError

section \<open>The remote document store\<close>

text \<open>
  Firestore is outside the program. A handler sees of it what each call returns: a
  snapshot (the documents, each with its identifier and its data), the identifier of a
  document it added, or a thrown error. The store is therefore a record of the calls
  the program makes, each answering with a fault or a result; nothing is assumed about
  how the answers of different calls relate.
\<close>

datatype fault = Fault string

type_synonym doc = "string \<times> jsobj"

record remote =
  students_where_cardId :: "jsval \<Rightarrow> fault + doc list"
    \<comment> \<open>\<^verbatim>\<open>db.collection('students').where('cardId', '==', c).get()\<close>\<close>
  students_add :: "jsobj \<Rightarrow> fault + string"
    \<comment> \<open>\<^verbatim>\<open>db.collection('students').add(d)\<close>, answering \<^verbatim>\<open>docRef.id\<close>\<close>
  students_orderBy_name :: "fault + doc list"
    \<comment> \<open>\<^verbatim>\<open>db.collection('students').orderBy('name').get()\<close>\<close>
  attendance_add :: "jsobj \<Rightarrow> fault + string"
    \<comment> \<open>\<^verbatim>\<open>db.collection('attendance').add(d)\<close>, answering \<^verbatim>\<open>docRef.id\<close>\<close>
  attendance_latest :: "nat \<Rightarrow> fault + doc list"
    \<comment> \<open>\<^verbatim>\<open>db.collection('attendance').orderBy('createdAt', 'desc').limit(n).get()\<close>\<close>
  attendance_since :: "int \<Rightarrow> fault + doc list"
    \<comment> \<open>\<^verbatim>\<open>db.collection('attendance').where('createdAt', '>=', t).orderBy('createdAt', 'desc').get()\<close>\<close>

text \<open>The calls a handler issued, in order; a call that faulted was still issued.\<close>

datatype remote_call =
    StudentsWhereCardId jsval
  | StudentsAdd jsobj
  | StudentsOrderByName
  | AttendanceAdd jsobj
  | AttendanceLatest nat
  | AttendanceSince int

section \<open>In-memory storage\<close>

text \<open>
  The arrays the handlers mutate, each under the name of the variable that holds it:
  the module's \<^verbatim>\<open>attendanceRecords\<close> and the \<^verbatim>\<open>latest\<close> of the fallback of
  \<^verbatim>\<open>GET /attendance/latest\<close>, which \<^verbatim>\<open>slice\<close> allocates and \<^verbatim>\<open>reverse\<close> then reverses
  in place. No reference to the array of \<^verbatim>\<open>attendanceRecords\<close> outlives a handler
  (\<^verbatim>\<open>res.json\<close> serialises at once), so assigning a new empty array to the variable is
  the same as emptying its cell.
\<close>

datatype var = AttendanceRecords | Latest

type_synonym store = "var \<Rightarrow> jsval list"

definition initial :: store where
  "initial = (\<lambda>_. [])"

text \<open>\<^verbatim>\<open>xs.slice(-n)\<close>: a new array of the last \<open>n\<close> elements, all of them when there are fewer.\<close>

definition slice_last :: "nat \<Rightarrow> 'a list \<Rightarrow> 'a list" where
  "slice_last n xs = drop (if n \<le> length xs then length xs - n else 0) xs"

section \<open>Responses\<close>

record response =
  status :: nat
  json :: jsobj

text \<open>What a handler did: its response, the arrays afterwards, the remote calls it issued.\<close>

record outcome =
  sent :: response
  mem :: store
  calls :: "remote_call list"

text \<open>\<^verbatim>\<open>arr.length\<close> as a JavaScript number.\<close>

definition js_length :: "'a list \<Rightarrow> jsval" where
  "js_length xs = JNum (Num (real (length xs)))"

section \<open>Helper functions\<close>

text \<open>
  \<^verbatim>\<open>getStudentDetails\<close>: the first document of the snapshot as
  \<^verbatim>\<open>{ id: studentDoc.id, ...studentDoc.data() }\<close>, \<^verbatim>\<open>null\<close> when the snapshot is empty
  and \<^verbatim>\<open>null\<close> when the call throws.
\<close>

definition getStudentDetails :: "remote \<Rightarrow> jsval \<Rightarrow> jsval" where
  "getStudentDetails db cardId =
     (case students_where_cardId db cardId of
        Inl e \<Rightarrow> JNull
      | Inr [] \<Rightarrow> JNull
      | Inr (studentDoc # _) \<Rightarrow>
          JObj (spread [(''id'', JStr (fst studentDoc))] (snd studentDoc)))"

text \<open>
  \<^verbatim>\<open>saveToFirebase\<close>: adds \<^verbatim>\<open>{ ...attendanceData, createdAt: serverTimestamp() }\<close> and
  returns the new document's identifier, \<^verbatim>\<open>null\<close> when the call throws.
\<close>

definition attendance_document :: "jsobj \<Rightarrow> jsobj" where
  "attendance_document attendanceData =
     put ''createdAt'' JServerTimestamp (spread [] attendanceData)"

definition saveToFirebase :: "remote \<Rightarrow> jsobj \<Rightarrow> jsval" where
  "saveToFirebase db attendanceData =
     (case attendance_add db (attendance_document attendanceData) of
        Inl e \<Rightarrow> JNull
      | Inr docId \<Rightarrow> JStr docId)"

section \<open>POST /attendance\<close>

text \<open>
  \<open>body\<close> is \<^verbatim>\<open>req.body\<close>, the object the body parsers made of the request.
  \<open>now1\<close> and \<open>now2\<close> are what the two \<^verbatim>\<open>new Date().toISOString()\<close> give (the
  first is only read when \<^verbatim>\<open>time\<close> is falsy). The record is pushed before the write is
  awaited; the response's \<^verbatim>\<open>data\<close> is a new object, so the pushed record never gets a
  \<^verbatim>\<open>firebaseId\<close>.

  After the validation and before the lookup the handler logs
  \<^verbatim>\<open>`Attendance request received for card: ${cardId}`\<close>, outside any \<^verbatim>\<open>try\<close>: when
  \<^verbatim>\<open>cardId\<close> has no string the handler throws there (\<open>Inl TypeError\<close>), having pushed
  nothing, called nothing and sent nothing.
\<close>

definition unknown_student :: jsval where
  "unknown_student = JObj [(''name'', JStr ''Unknown Student''), (''class'', JStr ''N/A'')]"

definition new_record :: "jsval list \<Rightarrow> jsval \<Rightarrow> jsval \<Rightarrow> string \<Rightarrow> jsval \<Rightarrow> jsobj" where
  "new_record attendanceRecords cardId timestamp now2 student =
     [(''id'', JNum (Num (real (length attendanceRecords) + 1))),
      (''cardId'', cardId),
      (''timestamp'', timestamp),
      (''recordedAt'', JStr now2),
      (''student'', or_else student unknown_student)]"

definition attendance_data :: "jsval \<Rightarrow> jsval \<Rightarrow> jsval \<Rightarrow> jsobj" where
  "attendance_data cardId timestamp student =
     [(''cardId'', cardId),
      (''timestamp'', timestamp),
      (''studentId'', if truthy student then field student ''id'' else JNull),
      (''studentName'', if truthy student then field student ''name'' else JStr ''Unknown''),
      (''class'', if truthy student then field student ''class'' else JStr ''N/A'')]"

definition post_attendance ::
  "remote \<Rightarrow> string \<Rightarrow> string \<Rightarrow> jsobj \<Rightarrow> store \<Rightarrow> js_error + outcome" where
  "post_attendance db now1 now2 body s =
     (let cardId = get body ''cardId'';
          time = get body ''time''
      in if \<not> truthy cardId
         then Inr \<lparr>sent = \<lparr>status = 400,
                            json = [(''success'', JBool False),
                                    (''message'', JStr ''cardId is required'')]\<rparr>,
                   mem = s,
                   calls = []\<rparr>
         else
           let timestamp = or_else time (JStr now1)
           in if \<not> printable cardId
              then Inl TypeError
              else
                let student = getStudentDetails db cardId;
                    record = new_record (s AttendanceRecords) cardId timestamp now2 student;
                    s' = s(AttendanceRecords := s AttendanceRecords @ [JObj record]);
                    attendanceData = attendance_data cardId timestamp student;
                    firebaseId = saveToFirebase db attendanceData
                in Inr \<lparr>sent = \<lparr>status = 201,
                                  json = [(''success'', JBool True),
                                          (''message'', JStr ''Attendance recorded successfully''),
                                          (''data'', JObj (put ''firebaseId'' firebaseId
                                                             (spread [] record)))]\<rparr>,
                         mem = s',
                         calls = [StudentsWhereCardId cardId,
                                  AttendanceAdd (attendance_document attendanceData)]\<rparr>)"

section \<open>The read endpoints\<close>

text \<open>
  \<^verbatim>\<open>snapshot.forEach(doc => records.push({ id: doc.id, ...doc.data() }))\<close>, on a fresh
  array \<^verbatim>\<open>records\<close> that nothing else refers to.
\<close>

definition snapshot_records :: "doc list \<Rightarrow> jsval list" where
  "snapshot_records docs = map (\<lambda>d. JObj (spread [(''id'', JStr (fst d))] (snd d))) docs"

text \<open>\<^verbatim>\<open>GET /attendance\<close>: the remote query, and \<^verbatim>\<open>attendanceRecords\<close> itself in the catch.\<close>

definition get_attendance :: "remote \<Rightarrow> store \<Rightarrow> outcome" where
  "get_attendance db s =
     (case attendance_latest db 100 of
        Inr docs \<Rightarrow>
          (let records = snapshot_records docs
           in \<lparr>sent = \<lparr>status = 200,
                        json = [(''success'', JBool True),
                                (''count'', js_length records),
                                (''data'', JArr records),
                                (''source'', JStr ''firebase'')]\<rparr>,
               mem = s,
               calls = [AttendanceLatest 100]\<rparr>)
      | Inl error \<Rightarrow>
          \<lparr>sent = \<lparr>status = 200,
                    json = [(''success'', JBool True),
                            (''count'', js_length (s AttendanceRecords)),
                            (''data'', JArr (s AttendanceRecords)),
                            (''source'', JStr ''memory'')]\<rparr>,
           mem = s,
           calls = [AttendanceLatest 100]\<rparr>)"

text \<open>
  \<^verbatim>\<open>GET /attendance/latest\<close>. In the catch, \<^verbatim>\<open>attendanceRecords.slice(-10)\<close> makes the
  array \<^verbatim>\<open>latest\<close> and \<^verbatim>\<open>.reverse()\<close> reverses that array in place.
\<close>

definition get_attendance_latest :: "remote \<Rightarrow> store \<Rightarrow> outcome" where
  "get_attendance_latest db s =
     (case attendance_latest db 10 of
        Inr docs \<Rightarrow>
          (let records = snapshot_records docs
           in \<lparr>sent = \<lparr>status = 200,
                        json = [(''success'', JBool True),
                                (''count'', js_length records),
                                (''data'', JArr records)]\<rparr>,
               mem = s,
               calls = [AttendanceLatest 10]\<rparr>)
      | Inl error \<Rightarrow>
          (let s1 = s(Latest := slice_last 10 (s AttendanceRecords));
               s2 = s1(Latest := rev (s1 Latest))
           in \<lparr>sent = \<lparr>status = 200,
                        json = [(''success'', JBool True),
                                (''count'', js_length (s2 Latest)),
                                (''data'', JArr (s2 Latest))]\<rparr>,
               mem = s2,
               calls = [AttendanceLatest 10]\<rparr>))"

text \<open>
  \<^verbatim>\<open>GET /attendance/today\<close>. \<open>today\<close> is the \<^verbatim>\<open>Date\<close> the handler computes (the clock's
  local day at 00:00:00.000, in milliseconds since the epoch).
\<close>

definition get_attendance_today :: "remote \<Rightarrow> int \<Rightarrow> store \<Rightarrow> outcome" where
  "get_attendance_today db today s =
     (case attendance_since db today of
        Inr docs \<Rightarrow>
          (let records = snapshot_records docs
           in \<lparr>sent = \<lparr>status = 200,
                        json = [(''success'', JBool True),
                                (''count'', js_length records),
                                (''data'', JArr records)]\<rparr>,
               mem = s,
               calls = [AttendanceSince today]\<rparr>)
      | Inl error \<Rightarrow>
          \<lparr>sent = \<lparr>status = 500,
                    json = [(''success'', JBool False),
                            (''message'', JStr ''Failed to fetch today's attendance'')]\<rparr>,
           mem = s,
           calls = [AttendanceSince today]\<rparr>)"

section \<open>Students\<close>

text \<open>\<^verbatim>\<open>POST /students/register\<close>\<close>

definition student_document :: "jsobj \<Rightarrow> jsobj" where
  "student_document body =
     [(''cardId'', get body ''cardId''),
      (''name'', get body ''name''),
      (''class'', or_else (get body ''studentClass'') (JStr ''N/A'')),
      (''rollNumber'', or_else (get body ''rollNumber'') (JStr ''N/A'')),
      (''registeredAt'', JServerTimestamp)]"

definition post_students_register :: "remote \<Rightarrow> jsobj \<Rightarrow> store \<Rightarrow> outcome" where
  "post_students_register db body s =
     (let cardId = get body ''cardId'';
          name = get body ''name''
      in if \<not> truthy cardId \<or> \<not> truthy name
         then \<lparr>sent = \<lparr>status = 400,
                        json = [(''success'', JBool False),
                                (''message'', JStr ''cardId and name are required'')]\<rparr>,
               mem = s,
               calls = []\<rparr>
         else
           (case students_add db (student_document body) of
              Inr docId \<Rightarrow>
                \<lparr>sent = \<lparr>status = 201,
                          json = [(''success'', JBool True),
                                  (''message'', JStr ''Student registered successfully''),
                                  (''data'', JObj [(''id'', JStr docId),
                                                   (''cardId'', cardId),
                                                   (''name'', name)])]\<rparr>,
                 mem = s,
                 calls = [StudentsAdd (student_document body)]\<rparr>
            | Inl error \<Rightarrow>
                \<lparr>sent = \<lparr>status = 500,
                          json = [(''success'', JBool False),
                                  (''message'', JStr ''Failed to register student'')]\<rparr>,
                 mem = s,
                 calls = [StudentsAdd (student_document body)]\<rparr>))"

text \<open>\<^verbatim>\<open>GET /students\<close>\<close>

definition get_students :: "remote \<Rightarrow> store \<Rightarrow> outcome" where
  "get_students db s =
     (case students_orderBy_name db of
        Inr docs \<Rightarrow>
          (let students = snapshot_records docs
           in \<lparr>sent = \<lparr>status = 200,
                        json = [(''success'', JBool True),
                                (''count'', js_length students),
                                (''data'', JArr students)]\<rparr>,
               mem = s,
               calls = [StudentsOrderByName]\<rparr>)
      | Inl error \<Rightarrow>
          \<lparr>sent = \<lparr>status = 500,
                    json = [(''success'', JBool False),
                            (''message'', JStr ''Failed to fetch students'')]\<rparr>,
           mem = s,
           calls = [StudentsOrderByName]\<rparr>)"

section \<open>DELETE /attendance/clear\<close>

text \<open>
  The template literal writes \<^verbatim>\<open>count\<close> in decimal (an array length is an integer below
  \<open>2^32\<close>, which JavaScript prints without an exponent).
\<close>

definition digit :: "nat \<Rightarrow> char" where
  "digit d = char_of (48 + d)"

function decimal :: "nat \<Rightarrow> string" where
  "decimal n = (if n < 10 then [digit n] else decimal (n div 10) @ [digit (n mod 10)])"
  by pat_completeness auto
termination
  by (relation "measure id") auto

declare decimal.simps [simp del]

definition delete_attendance_clear :: "store \<Rightarrow> outcome" where
  "delete_attendance_clear s =
     (let count = length (s AttendanceRecords);
          s' = s(AttendanceRecords := [])
      in \<lparr>sent = \<lparr>status = 200,
                   json = [(''success'', JBool True),
                           (''message'', JStr (''Cleared '' @ decimal count @
                              '' local records (Firebase data unchanged)''))]\<rparr>,
          mem = s',
          calls = []\<rparr>)"

text \<open>\<^verbatim>\<open>GET /test\<close>; \<open>now\<close> is what \<^verbatim>\<open>new Date().toISOString()\<close> gives.\<close>

definition get_test :: "string \<Rightarrow> store \<Rightarrow> outcome" where
  "get_test now s =
     \<lparr>sent = \<lparr>status = 200,
               json = [(''success'', JBool True),
                       (''message'', JStr ''Server is running!''),
                       (''timestamp'', JStr now)]\<rparr>,
      mem = s,
      calls = []\<rparr>"

section \<open>A process lifetime\<close>

text \<open>
  The requests a process serves, each with what the outside gave it (the store's
  answers, the clock), handled one after the other from the empty array the module
  starts with. A handler that throws leaves the arrays as they were. Where the rejected
  promise ends the process, the lifetime is the requests up to that one; what is proved
  of every list of requests holds of those too.
\<close>

datatype request =
    PostAttendance remote string string jsobj
  | GetAttendance remote
  | GetAttendanceLatest remote
  | GetAttendanceToday remote int
  | PostStudentsRegister remote jsobj
  | GetStudents remote
  | DeleteAttendanceClear
  | GetTest string

fun handle :: "request \<Rightarrow> store \<Rightarrow> js_error + outcome" where
  "handle (PostAttendance db now1 now2 body) s = post_attendance db now1 now2 body s"
| "handle (GetAttendance db) s = Inr (get_attendance db s)"
| "handle (GetAttendanceLatest db) s = Inr (get_attendance_latest db s)"
| "handle (GetAttendanceToday db today) s = Inr (get_attendance_today db today s)"
| "handle (PostStudentsRegister db body) s = Inr (post_students_register db body s)"
| "handle (GetStudents db) s = Inr (get_students db s)"
| "handle DeleteAttendanceClear s = Inr (delete_attendance_clear s)"
| "handle (GetTest now) s = Inr (get_test now s)"

fun serve :: "request list \<Rightarrow> store \<Rightarrow> store" where
  "serve [] s = s"
| "serve (r # rs) s =
     (case handle r s of
        Inl e \<Rightarrow> serve rs s
      | Inr out \<Rightarrow> serve rs (mem out))"

text \<open>The \<^verbatim>\<open>id\<close> fields of the records of an array.\<close>

definition ids :: "jsval list \<Rightarrow> jsval list" where
  "ids records = map (\<lambda>r. field r ''id'') records"

section \<open>Two stores to run the handlers against\<close>

text \<open>A store that cannot be reached: every call throws.\<close>

definition unreachable :: remote where
  "unreachable =
     \<lparr>students_where_cardId = (\<lambda>_. Inl (Fault ''UNAVAILABLE'')),
      students_add = (\<lambda>_. Inl (Fault ''UNAVAILABLE'')),
      students_orderBy_name = Inl (Fault ''UNAVAILABLE''),
      attendance_add = (\<lambda>_. Inl (Fault ''UNAVAILABLE'')),
      attendance_latest = (\<lambda>_. Inl (Fault ''UNAVAILABLE'')),
      attendance_since = (\<lambda>_. Inl (Fault ''UNAVAILABLE''))\<rparr>"

text \<open>
  A store that answers: one student holds the card \<^verbatim>\<open>CARD1\<close>, the attendance collection
  is empty, and an added document gets the identifier \<^verbatim>\<open>doc1\<close>.
\<close>

definition asha :: doc where
  "asha = (''s1'', [(''cardId'', JStr ''CARD1''), (''name'', JStr ''Asha''),
                    (''class'', JStr ''5A''), (''rollNumber'', JStr ''12'')])"

definition reachable :: remote where
  "reachable =
     \<lparr>students_where_cardId = (\<lambda>c. if c = JStr ''CARD1'' then Inr [asha] else Inr []),
      students_add = (\<lambda>_. Inr ''doc1''),
      students_orderBy_name = Inr [asha],
      attendance_add = (\<lambda>_. Inr ''doc1''),
      attendance_latest = (\<lambda>_. Inr []),
      attendance_since = (\<lambda>_. Inr [])\<rparr>"

text \<open>A \<^verbatim>\<open>cardId\<close> that is truthy and has no string: \<^verbatim>\<open>{ "toString": 1 }\<close>.\<close>

definition unprintable :: jsval where
  "unprintable = JObj [(''toString'', JNum (Num 1))]"

text \<open>A card scan while the store cannot be reached.\<close>

definition scan :: request where
  "scan = PostAttendance unreachable ''t1'' ''t2'' [(''cardId'', JStr ''CARD1'')]"

section \<open>Reading outcomes\<close>

text \<open>The \<^verbatim>\<open>data\<close> object of a response.\<close>

definition data_of :: "outcome \<Rightarrow> jsobj" where
  "data_of out = (case get (json (sent out)) ''data'' of JObj d \<Rightarrow> d | _ \<Rightarrow> [])"

text \<open>
  The local identifiers a run hands out: the \<^verbatim>\<open>id\<close> of the record each accepted
  ingestion sends back, in the order of the requests.
\<close>

fun issued_by :: "request \<Rightarrow> outcome \<Rightarrow> jsval list" where
  "issued_by (PostAttendance db now1 now2 body) out =
     (if status (sent out) = 201 then [get (data_of out) ''id''] else [])"
| "issued_by _ out = []"

fun issued :: "request list \<Rightarrow> store \<Rightarrow> jsval list" where
  "issued [] s = []"
| "issued (r # rs) s =
     (case handle r s of
        Inl e \<Rightarrow> issued rs s
      | Inr out \<Rightarrow> issued_by r out @ issued rs (mem out))"

text \<open>
  The student of the record an ingestion pushed (the last of the array), and the student
  of the record it sent back.
\<close>

definition stored_student :: "outcome \<Rightarrow> jsval" where
  "stored_student out = field (last (mem out AttendanceRecords)) ''student''"

definition sent_student :: "outcome \<Rightarrow> jsval" where
  "sent_student out = get (data_of out) ''student''"

text \<open>The array's \<^verbatim>\<open>id\<close>s are \<open>1, 2, \<dots>\<close> up to its length.\<close>

definition numbered :: "jsval list \<Rightarrow> bool" where
  "numbered records \<longleftrightarrow>
     ids records = map (\<lambda>i. JNum (Num (real i))) [1..<Suc (length records)]"

text \<open>
  Reading a decimal numeral back, and the count out of the message of
  \<^verbatim>\<open>DELETE /attendance/clear\<close>: the digits that follow \<^verbatim>\<open>Cleared \<close>.
\<close>

definition digit_value :: "char \<Rightarrow> nat" where
  "digit_value c = of_char c - 48"

definition read_decimal :: "string \<Rightarrow> nat" where
  "read_decimal cs = foldl (\<lambda>a c. 10 * a + digit_value c) 0 cs"

definition is_digit :: "char \<Rightarrow> bool" where
  "is_digit c \<longleftrightarrow> 48 \<le> (of_char c :: nat) \<and> (of_char c :: nat) \<le> 57"

definition cleared_count :: "jsval \<Rightarrow> nat" where
  "cleared_count message =
     (case message of
        JStr m \<Rightarrow> read_decimal (takeWhile is_digit (drop (length ''Cleared '') m))
      | _ \<Rightarrow> 0)"

section \<open>Objects: reading after writing\<close>

lemma lookup_append:
  "lookup (xs @ ys) k = (case lookup ys k of Some w \<Rightarrow> Some w | None \<Rightarrow> lookup xs k)"
  by (induction xs) (auto split: option.splits)

lemma lookup_None_iff: "lookup obj k = None \<longleftrightarrow> k \<notin> fst ` set obj"
  by (induction obj) (auto split: option.splits)

lemma lookup_map_other:
  "j \<noteq> k \<Longrightarrow>
   lookup (map (\<lambda>(k', v'). if k' = k then (k', v) else (k', v')) obj) j = lookup obj j"
  by (induction obj) (auto split: option.splits)

lemma keys_map_upd:
  "fst ` set (map (\<lambda>(k', v'). if k' = k then (k', v) else (k', v')) obj) = fst ` set obj"
  by (induction obj) auto

lemma lookup_map_same:
  "k \<in> fst ` set obj \<Longrightarrow>
   lookup (map (\<lambda>(k', v'). if k' = k then (k', v) else (k', v')) obj) k = Some v"
proof (induction obj)
  case Nil
  then show ?case by simp
next
  case (Cons kv obj)
  obtain k' v' where kv: "kv = (k', v')" by (cases kv)
  show ?case
  proof (cases "k \<in> fst ` set obj")
    case True
    with Cons.IH show ?thesis by (simp add: kv)
  next
    case False
    then have "lookup (map (\<lambda>(k', v'). if k' = k then (k', v) else (k', v')) obj) k = None"
      unfolding lookup_None_iff keys_map_upd .
    moreover from False Cons.prems have "k' = k" by (simp add: kv)
    ultimately show ?thesis by (simp add: kv)
  qed
qed

lemma lookup_put: "lookup (put k v obj) j = (if j = k then Some v else lookup obj j)"
  by (simp add: put_def lookup_map_other lookup_map_same lookup_append lookup_None_iff)

lemma lookup_spread:
  "lookup (spread target src) k =
     (case lookup src k of Some w \<Rightarrow> Some w | None \<Rightarrow> lookup target k)"
  unfolding spread_def
proof (induction src arbitrary: target)
  case Nil
  then show ?case by simp
next
  case (Cons kv src)
  obtain k' v' where kv: "kv = (k', v')" by (cases kv)
  show ?case
    by (simp add: kv Cons.IH lookup_put split: option.splits)
qed

lemma get_put: "get (put k v obj) j = (if j = k then v else get obj j)"
  by (simp add: get_def lookup_put)

lemma has_put: "has (put k v obj) j = (j = k \<or> has obj j)"
  by (simp add: has_def lookup_put)

lemma get_spread_nil: "get (spread [] src) k = get src k"
  by (simp add: get_def lookup_spread split: option.splits)

lemma has_spread_nil: "has (spread [] src) k = has src k"
  by (simp add: has_def lookup_spread split: option.splits)

lemma get_spread_id: "k \<noteq> ''id'' \<Longrightarrow> get (spread [(''id'', i)] src) k = get src k"
  by (simp add: get_def lookup_spread split: option.splits)

section \<open>Decimal numerals\<close>

lemma digit_value_digit: "d < 10 \<Longrightarrow> digit_value (digit d) = d"
  by (simp add: digit_value_def digit_def)

lemma read_decimal_decimal: "read_decimal (decimal n) = n"
proof (induction n rule: decimal.induct)
  case (1 n)
  show ?case
  proof (cases "n < 10")
    case True
    then show ?thesis
      by (subst decimal.simps) (simp add: read_decimal_def digit_value_digit)
  next
    case False
    with 1 have "read_decimal (decimal (n div 10)) = n div 10" by simp
    with False show ?thesis
      by (subst decimal.simps) (simp add: read_decimal_def digit_value_digit)
  qed
qed

lemma decimal_inject: "decimal m = decimal n \<longleftrightarrow> m = n"
  by (metis read_decimal_decimal)

lemma is_digit_digit: "d < 10 \<Longrightarrow> is_digit (digit d)"
  by (simp add: is_digit_def digit_def)

lemma decimal_digits: "c \<in> set (decimal n) \<Longrightarrow> is_digit c"
proof (induction n rule: decimal.induct)
  case (1 n)
  show ?case
  proof (cases "n < 10")
    case True
    with "1.prems" show ?thesis
      by (subst (asm) decimal.simps) (simp add: is_digit_digit)
  next
    case False
    with "1.prems" have "c \<in> set (decimal (n div 10)) \<or> c = digit (n mod 10)"
      by (subst (asm) decimal.simps) auto
    with False "1.IH" show ?thesis by (auto simp: is_digit_digit)
  qed
qed

lemma cleared_count_message:
  "cleared_count (JStr (''Cleared '' @ decimal n @ '' local records (Firebase data unchanged)'')) = n"
proof -
  have "takeWhile is_digit (decimal n @ '' local records (Firebase data unchanged)'') =
      decimal n @ takeWhile is_digit '' local records (Firebase data unchanged)''"
    by (rule takeWhile_append2) (rule decimal_digits)
  then have "takeWhile is_digit (decimal n @ '' local records (Firebase data unchanged)'') = decimal n"
    by (simp add: is_digit_def)
  then show ?thesis
    by (simp add: cleared_count_def read_decimal_decimal)
qed

section \<open>Arrays\<close>

lemma rev_slice_last: "rev (slice_last n xs) = take n (rev xs)"
  by (auto simp: slice_last_def rev_drop)

lemma length_slice_last: "length (slice_last n xs) = min n (length xs)"
  by (auto simp: slice_last_def)

section \<open>Ingestion\<close>

text \<open>The three ways through \<^verbatim>\<open>POST /attendance\<close>, one equation each.\<close>

lemma printable_JStr: "printable (JStr c)"
  by simp

lemma post_attendance_accepted:
  "truthy (get body ''cardId'') \<Longrightarrow> printable (get body ''cardId'') \<Longrightarrow>
   post_attendance db now1 now2 body s =
     (let cardId = get body ''cardId'';
          timestamp = or_else (get body ''time'') (JStr now1);
          student = getStudentDetails db cardId;
          record = new_record (s AttendanceRecords) cardId timestamp now2 student;
          attendanceData = attendance_data cardId timestamp student
      in Inr \<lparr>sent = \<lparr>status = 201,
                       json = [(''success'', JBool True),
                               (''message'', JStr ''Attendance recorded successfully''),
                               (''data'', JObj (put ''firebaseId'' (saveToFirebase db attendanceData)
                                                  (spread [] record)))]\<rparr>,
              mem = s(AttendanceRecords := s AttendanceRecords @ [JObj record]),
              calls = [StudentsWhereCardId cardId,
                       AttendanceAdd (attendance_document attendanceData)]\<rparr>)"
  by (simp add: post_attendance_def Let_def)

lemma post_attendance_rejected:
  "\<not> truthy (get body ''cardId'') \<Longrightarrow>
   post_attendance db now1 now2 body s =
     Inr \<lparr>sent = \<lparr>status = 400,
                   json = [(''success'', JBool False),
                           (''message'', JStr ''cardId is required'')]\<rparr>,
          mem = s,
          calls = []\<rparr>"
  by (simp add: post_attendance_def Let_def)

lemma post_attendance_threw:
  "truthy (get body ''cardId'') \<Longrightarrow> \<not> printable (get body ''cardId'') \<Longrightarrow>
   post_attendance db now1 now2 body s = Inl TypeError"
  by (simp add: post_attendance_def Let_def)

text \<open>What comes back is one of the three, and a 201 is the first.\<close>

lemma post_attendance_returned:
  assumes "post_attendance db now1 now2 body s = Inr out"
  shows "(\<not> truthy (get body ''cardId'') \<and> calls out = [])
       \<or> (truthy (get body ''cardId'') \<and> printable (get body ''cardId''))"
proof (cases "truthy (get body ''cardId'')")
  case False
  with assms show ?thesis by (auto simp: post_attendance_rejected)
next
  case True
  with assms show ?thesis by (cases "printable (get body ''cardId'')") (auto simp: post_attendance_threw)
qed

text \<open>
  The body \<^verbatim>\<open>{ "cardId": { "toString": 1 } }\<close>: the handler throws, and a run that
  serves it keeps the arrays.
\<close>

lemma unprintable_cardId_throws:
  "truthy unprintable
   \<and> post_attendance db now1 now2 [(''cardId'', unprintable)] s = Inl TypeError
   \<and> serve [PostAttendance db now1 now2 [(''cardId'', unprintable)]] s = s"
  by (simp add: post_attendance_def Let_def get_def unprintable_def has_def)



text \<open>
  Claim C3. An ingestion whose \<^verbatim>\<open>cardId\<close> is absent (\<^verbatim>\<open>undefined\<close>) or empty, or falsy
  in any other way, is answered 400 with \<^verbatim>\<open>success: false\<close> and the message
  \<^verbatim>\<open>cardId is required\<close>; the arrays are what they were, so the ledger keeps its length,
  and no remote call is issued: no student lookup, no write.
\<close>

theorem rejected_ingest_has_no_effect:
  assumes "\<not> truthy (get body ''cardId'')"
  shows "\<exists>out. post_attendance db now1 now2 body s = Inr out
       \<and> status (sent out) = 400
       \<and> get (json (sent out)) ''success'' = JBool False
       \<and> get (json (sent out)) ''message'' = JStr ''cardId is required''
       \<and> mem out = s
       \<and> length (mem out AttendanceRecords) = length (s AttendanceRecords)
       \<and> calls out = []"
  using assms by (simp add: post_attendance_rejected get_def)

theorem rejected_ingest_has_no_effect_witness:
  "\<not> truthy (get [(''time'', JStr ''T'')] ''cardId'')
   \<and> \<not> truthy (get [(''cardId'', JStr [])] ''cardId'')
   \<and> (\<exists>out. post_attendance reachable ''t1'' ''t2'' [(''time'', JStr ''T'')] initial = Inr out
        \<and> status (sent out) = 400 \<and> mem out = initial \<and> calls out = [])
   \<and> (\<exists>out. post_attendance reachable ''t1'' ''t2'' [(''cardId'', JStr [])] initial = Inr out
        \<and> status (sent out) = 400 \<and> mem out = initial \<and> calls out = [])"
proof -
  have absent: "\<not> truthy (get [(''time'', JStr ''T'')] ''cardId'')"
    by (simp add: get_def)
  have empty: "\<not> truthy (get [(''cardId'', JStr [])] ''cardId'')"
    by (simp add: get_def)
  from rejected_ingest_has_no_effect [OF absent, of reachable "''t1''" "''t2''" initial]
  have a: "\<exists>out. post_attendance reachable ''t1'' ''t2'' [(''time'', JStr ''T'')] initial = Inr out
        \<and> status (sent out) = 400 \<and> mem out = initial \<and> calls out = []"
    by auto
  from rejected_ingest_has_no_effect [OF empty, of reachable "''t1''" "''t2''" initial]
  have e: "\<exists>out. post_attendance reachable ''t1'' ''t2'' [(''cardId'', JStr [])] initial = Inr out
        \<and> status (sent out) = 400 \<and> mem out = initial \<and> calls out = []"
    by auto
  from absent empty a e show ?thesis by blast
qed

lemma data_of_accepted:
  "truthy (get body ''cardId'') \<Longrightarrow> printable (get body ''cardId'') \<Longrightarrow>
   post_attendance db now1 now2 body s = Inr out \<Longrightarrow>
   data_of out =
     put ''firebaseId''
       (saveToFirebase db (attendance_data (get body ''cardId'')
          (or_else (get body ''time'') (JStr now1)) (getStudentDetails db (get body ''cardId''))))
       (spread [] (new_record (s AttendanceRecords) (get body ''cardId'')
          (or_else (get body ''time'') (JStr now1)) now2 (getStudentDetails db (get body ''cardId''))))"
  by (auto simp: post_attendance_accepted Let_def data_of_def get_def)

text \<open>
  Claim C2, as stated: when the remote write fails, the remote identifier is absent from
  the record in the response. It is not: \<^verbatim>\<open>saveToFirebase\<close> returns \<^verbatim>\<open>null\<close> and the
  handler writes \<^verbatim>\<open>firebaseId: firebaseId\<close> whatever it got, so the record that goes to
  \<^verbatim>\<open>res.json\<close> has the property \<^verbatim>\<open>firebaseId\<close>, holding \<^verbatim>\<open>null\<close>. Here the store cannot
  be reached and the card is \<^verbatim>\<open>CARD1\<close>.
\<close>

theorem failed_write_keeps_firebaseId_property:
  "attendance_add unreachable
     (attendance_document (attendance_data (JStr ''CARD1'') (JStr ''t1'') JNull)) =
     Inl (Fault ''UNAVAILABLE'')
   \<and> (\<exists>out. post_attendance unreachable ''t1'' ''t2'' [(''cardId'', JStr ''CARD1'')] initial = Inr out
        \<and> calls out =
            [StudentsWhereCardId (JStr ''CARD1''),
             AttendanceAdd (attendance_document
               (attendance_data (JStr ''CARD1'') (JStr ''t1'') JNull))]
        \<and> status (sent out) = 201
        \<and> has (data_of out) ''firebaseId''
        \<and> data_of out =
            [(''id'', JNum (Num 1)), (''cardId'', JStr ''CARD1''), (''timestamp'', JStr ''t1''),
             (''recordedAt'', JStr ''t2''), (''student'', unknown_student),
             (''firebaseId'', JNull)])"
  by (simp add: post_attendance_def Let_def get_def has_def data_of_def unreachable_def
      getStudentDetails_def saveToFirebase_def new_record_def or_else_def initial_def
      put_def spread_def unknown_student_def)

text \<open>
  Claim C2, amended. For an ingestion that returned and tried to add the document \<open>d\<close>:
  when the store throws on that write, the record in the 201 response has the property
  \<^verbatim>\<open>firebaseId\<close> and its value is \<^verbatim>\<open>null\<close>; when the store answers with the identifier
  \<open>docId\<close>, \<^verbatim>\<open>firebaseId\<close> is that identifier.
\<close>

theorem firebaseId_follows_write:
  assumes "post_attendance db now1 now2 body s = Inr out"
    and "calls out = [c, AttendanceAdd d]"
  shows "status (sent out) = 201
       \<and> (attendance_add db d = Inl e \<longrightarrow>
            has (data_of out) ''firebaseId'' \<and> get (data_of out) ''firebaseId'' = JNull)
       \<and> (attendance_add db d = Inr docId \<longrightarrow>
            get (data_of out) ''firebaseId'' = JStr docId)"
proof -
  from post_attendance_returned [OF assms(1)] assms(2)
  have t: "truthy (get body ''cardId'')" and p: "printable (get body ''cardId'')"
    by auto
  from assms have d: "d = attendance_document (attendance_data (get body ''cardId'')
      (or_else (get body ''time'') (JStr now1)) (getStudentDetails db (get body ''cardId'')))"
    by (auto simp: post_attendance_accepted [OF t p] Let_def)
  from assms(1) have st: "status (sent out) = 201"
    by (auto simp: post_attendance_accepted [OF t p] Let_def)
  show ?thesis
    by (simp add: st data_of_accepted [OF t p assms(1)] get_put has_put saveToFirebase_def
        d [symmetric])
qed

theorem firebaseId_follows_write_witness:
  "(\<exists>out. post_attendance unreachable ''t1'' ''t2'' [(''cardId'', JStr ''CARD1'')] initial = Inr out
      \<and> get (data_of out) ''firebaseId'' = JNull)
   \<and> (\<exists>out. post_attendance reachable ''t1'' ''t2'' [(''cardId'', JStr ''CARD1'')] initial = Inr out
      \<and> get (data_of out) ''firebaseId'' = JStr ''doc1'')"
proof -
  have h: "truthy (get [(''cardId'', JStr ''CARD1'')] ''cardId'')"
    and p: "printable (get [(''cardId'', JStr ''CARD1'')] ''cardId'')"
    by (simp_all add: get_def)
  obtain ou where ou: "post_attendance unreachable ''t1'' ''t2'' [(''cardId'', JStr ''CARD1'')] initial
      = Inr ou"
    and cu: "calls ou = [StudentsWhereCardId (JStr ''CARD1''),
       AttendanceAdd (attendance_document (attendance_data (JStr ''CARD1'') (JStr ''t1'') JNull))]"
    by (simp add: post_attendance_def Let_def get_def unreachable_def getStudentDetails_def
        or_else_def)
  obtain or' where or': "post_attendance reachable ''t1'' ''t2'' [(''cardId'', JStr ''CARD1'')] initial
      = Inr or'"
    and cr: "calls or' = [StudentsWhereCardId (JStr ''CARD1''),
       AttendanceAdd (attendance_document (attendance_data (JStr ''CARD1'') (JStr ''t1'')
         (JObj (spread [(''id'', JStr (fst asha))] (snd asha)))))]"
    by (simp add: post_attendance_def Let_def get_def reachable_def getStudentDetails_def
        or_else_def)
  have fu: "attendance_add unreachable
      (attendance_document (attendance_data (JStr ''CARD1'') (JStr ''t1'') JNull)) =
      Inl (Fault ''UNAVAILABLE'')"
    by (simp add: unreachable_def)
  have fr: "attendance_add reachable
      (attendance_document (attendance_data (JStr ''CARD1'') (JStr ''t1'')
         (JObj (spread [(''id'', JStr (fst asha))] (snd asha))))) = Inr ''doc1''"
    by (simp add: reachable_def)
  from firebaseId_follows_write [OF ou cu, of "Fault ''UNAVAILABLE''" "''doc1''"] fu
  have "get (data_of ou) ''firebaseId'' = JNull" by blast
  moreover from firebaseId_follows_write [OF or' cr, of "Fault ''UNAVAILABLE''" "''doc1''"] fr
  have "get (data_of or') ''firebaseId'' = JStr ''doc1''" by blast
  ultimately show ?thesis using ou or' by blast
qed

section \<open>Local identifiers\<close>

lemma id_new_record:
  "get (new_record records cardId timestamp now2 student) ''id'' =
     JNum (Num (real (length records) + 1))"
  by (simp add: new_record_def get_def)

lemma numbered_Nil: "numbered []"
  by (simp add: numbered_def ids_def)

lemma numbered_push:
  "numbered records \<Longrightarrow>
   numbered (records @ [JObj (new_record records cardId timestamp now2 student)])"
  by (simp add: numbered_def ids_def id_new_record)

lemma numbered_distinct: "numbered records \<Longrightarrow> distinct (ids records)"
  by (simp add: numbered_def distinct_map inj_on_def)

lemma post_attendance_numbered:
  assumes "numbered (s AttendanceRecords)"
    and "post_attendance db now1 now2 body s = Inr out"
  shows "numbered (mem out AttendanceRecords)"
proof (cases "truthy (get body ''cardId'')")
  case False
  with assms show ?thesis by (auto simp: post_attendance_rejected)
next
  case True
  show ?thesis
  proof (cases "printable (get body ''cardId'')")
    case False
    with True assms(2) show ?thesis by (simp add: post_attendance_threw)
  next
    case p: True
    from assms(2) have "mem out AttendanceRecords =
        s AttendanceRecords @ [JObj (new_record (s AttendanceRecords) (get body ''cardId'')
          (or_else (get body ''time'') (JStr now1)) now2
          (getStudentDetails db (get body ''cardId'')))]"
      by (auto simp: post_attendance_accepted [OF True p] Let_def)
    with assms(1) show ?thesis by (simp add: numbered_push)
  qed
qed

lemma handle_numbered:
  assumes n: "numbered (s AttendanceRecords)"
    and h: "handle r s = Inr out"
  shows "numbered (mem out AttendanceRecords)"
proof (cases r)
  case (PostAttendance db now1 now2 body)
  with n h show ?thesis by (simp add: post_attendance_numbered)
next
  case DeleteAttendanceClear
  with h show ?thesis by (auto simp: delete_attendance_clear_def Let_def numbered_Nil)
next
  case (GetAttendance db)
  with n h show ?thesis by (auto simp: get_attendance_def Let_def split: sum.splits)
next
  case (GetAttendanceLatest db)
  with n h show ?thesis by (auto simp: get_attendance_latest_def Let_def split: sum.splits)
next
  case (GetAttendanceToday db today)
  with n h show ?thesis by (auto simp: get_attendance_today_def Let_def split: sum.splits)
next
  case (PostStudentsRegister db body)
  with n h show ?thesis
    by (auto simp: post_students_register_def Let_def split: sum.splits)
next
  case (GetStudents db)
  with n h show ?thesis by (auto simp: get_students_def Let_def split: sum.splits)
next
  case (GetTest now)
  with n h show ?thesis by (auto simp: get_test_def)
qed

lemma serve_numbered:
  "numbered (s AttendanceRecords) \<Longrightarrow> numbered (serve rs s AttendanceRecords)"
proof (induction rs arbitrary: s)
  case Nil
  then show ?case by simp
next
  case (Cons r rs)
  show ?case
  proof (cases "handle r s")
    case (Inl e)
    with Cons show ?thesis by simp
  next
    case (Inr out)
    with Cons.prems have "numbered (mem out AttendanceRecords)"
      by (simp add: handle_numbered)
    with Inr show ?thesis by (simp add: Cons.IH)
  qed
qed

text \<open>
  Claim C4, as stated: over any sequence of operations within one process lifetime,
  clears included, the local identifiers are unique. They are not: the \<^verbatim>\<open>id\<close> is the
  array's length plus one, and a clear takes the length back to 0. A scan, a clear and a
  second scan hand out the \<^verbatim>\<open>id\<close> 1 twice.
\<close>

theorem local_id_issued_again_after_clear:
  "issued [scan, DeleteAttendanceClear, scan] initial = [JNum (Num 1), JNum (Num 1)]
   \<and> \<not> distinct (issued [scan, DeleteAttendanceClear, scan] initial)"
  by (simp add: scan_def post_attendance_def Let_def get_def has_def data_of_def unreachable_def
      getStudentDetails_def saveToFirebase_def new_record_def or_else_def initial_def
      put_def spread_def delete_attendance_clear_def)

text \<open>
  Claim C4, amended. An accepted ingestion gives the new record the \<^verbatim>\<open>id\<close>
  \<open>length + 1\<close>, the count of the records already in \<^verbatim>\<open>attendanceRecords\<close> plus one, in
  the array and in the response. After any sequence of requests served from the start of
  the process, clears among them, the \<^verbatim>\<open>id\<close>s of the records the array holds are
  \<open>1, 2, \<dots>\<close> up to its length, hence pairwise distinct. (Uniqueness is of the records
  held at one time, not of all the identifiers the process hands out.)
\<close>

theorem local_ids_count_up:
  "(truthy (get body ''cardId'') \<and> printable (get body ''cardId'') \<longrightarrow>
      (\<exists>out. post_attendance db now1 now2 body s = Inr out
         \<and> field (last (mem out AttendanceRecords)) ''id'' =
             JNum (Num (real (length (s AttendanceRecords)) + 1))
         \<and> get (data_of out) ''id'' = JNum (Num (real (length (s AttendanceRecords)) + 1))))
   \<and> ids (serve rs initial AttendanceRecords) =
       map (\<lambda>i. JNum (Num (real i))) [1..<Suc (length (serve rs initial AttendanceRecords))]
   \<and> distinct (ids (serve rs initial AttendanceRecords))"
proof -
  have n: "numbered (serve rs initial AttendanceRecords)"
    by (rule serve_numbered) (simp add: initial_def numbered_Nil)
  have a: "truthy (get body ''cardId'') \<and> printable (get body ''cardId'') \<longrightarrow>
      (\<exists>out. post_attendance db now1 now2 body s = Inr out
         \<and> field (last (mem out AttendanceRecords)) ''id'' =
             JNum (Num (real (length (s AttendanceRecords)) + 1))
         \<and> get (data_of out) ''id'' = JNum (Num (real (length (s AttendanceRecords)) + 1)))"
    by (simp add: post_attendance_accepted Let_def id_new_record data_of_def get_def [of "_ # _"]
        get_put get_spread_nil)
  from n have b: "ids (serve rs initial AttendanceRecords) =
       map (\<lambda>i. JNum (Num (real i))) [1..<Suc (length (serve rs initial AttendanceRecords))]"
    by (simp add: numbered_def)
  from a b numbered_distinct [OF n] show ?thesis by blast
qed

theorem local_ids_count_up_witness:
  "truthy (get [(''cardId'', JStr ''CARD1'')] ''cardId'')
   \<and> printable (get [(''cardId'', JStr ''CARD1'')] ''cardId'')
   \<and> (\<exists>out. post_attendance unreachable ''t1'' ''t2'' [(''cardId'', JStr ''CARD1'')]
          (initial(AttendanceRecords := [JNull, JNull])) = Inr out
        \<and> field (last (mem out AttendanceRecords)) ''id'' = JNum (Num 3)
        \<and> get (data_of out) ''id'' = JNum (Num 3))
   \<and> ids (serve [scan, scan, DeleteAttendanceClear, scan,
                  GetAttendanceLatest unreachable, scan] initial AttendanceRecords) =
       [JNum (Num 1), JNum (Num 2)]
   \<and> distinct (ids (serve [scan, scan, DeleteAttendanceClear, scan,
                  GetAttendanceLatest unreachable, scan] initial AttendanceRecords))"
proof -
  have h: "truthy (get [(''cardId'', JStr ''CARD1'')] ''cardId'')"
    and p: "printable (get [(''cardId'', JStr ''CARD1'')] ''cardId'')"
    by (simp_all add: get_def)
  have l: "length (serve [scan, scan, DeleteAttendanceClear, scan,
                  GetAttendanceLatest unreachable, scan] initial AttendanceRecords) = 2"
    by (simp add: scan_def post_attendance_accepted [OF h p] Let_def delete_attendance_clear_def
        get_attendance_latest_def unreachable_def)
  note T = local_ids_count_up [of "[(''cardId'', JStr ''CARD1'')]" unreachable "''t1''" "''t2''"
        "initial(AttendanceRecords := [JNull, JNull])"
        "[scan, scan, DeleteAttendanceClear, scan, GetAttendanceLatest unreachable, scan]"]
  from T h p have a: "\<exists>out. post_attendance unreachable ''t1'' ''t2'' [(''cardId'', JStr ''CARD1'')]
          (initial(AttendanceRecords := [JNull, JNull])) = Inr out
        \<and> field (last (mem out AttendanceRecords)) ''id'' = JNum (Num 3)
        \<and> get (data_of out) ''id'' = JNum (Num 3)"
    by auto
  from T l have b: "ids (serve [scan, scan, DeleteAttendanceClear, scan,
                  GetAttendanceLatest unreachable, scan] initial AttendanceRecords) =
       [JNum (Num 1), JNum (Num 2)]"
    by (simp add: upt_conv_Cons)
  from T have c: "distinct (ids (serve [scan, scan, DeleteAttendanceClear, scan,
                  GetAttendanceLatest unreachable, scan] initial AttendanceRecords))"
    by blast
  from h p a b c show ?thesis by blast
qed

section \<open>The embedded student\<close>

lemma student_new_record:
  "get (new_record records cardId timestamp now2 student) ''student'' =
     or_else student unknown_student"
  by (simp add: new_record_def get_def)

lemma students_of_accepted:
  assumes "truthy (get body ''cardId'')"
    and "printable (get body ''cardId'')"
  shows "\<exists>out. post_attendance db now1 now2 body s = Inr out
       \<and> status (sent out) = 201
       \<and> stored_student out = or_else (getStudentDetails db (get body ''cardId'')) unknown_student
       \<and> sent_student out = or_else (getStudentDetails db (get body ''cardId'')) unknown_student"
  using assms
  by (simp add: post_attendance_accepted Let_def stored_student_def sent_student_def
      data_of_def get_def [of "_ # _"] get_put get_spread_nil student_new_record)

lemma getStudentDetails_found:
  "students_where_cardId db cardId = Inr (d # ds) \<Longrightarrow>
   getStudentDetails db cardId = JObj (spread [(''id'', JStr (fst d))] (snd d))"
  by (simp add: getStudentDetails_def)

lemma getStudentDetails_none:
  "students_where_cardId db cardId = Inr [] \<or> students_where_cardId db cardId = Inl e \<Longrightarrow>
   getStudentDetails db cardId = JNull"
  by (auto simp: getStudentDetails_def)

lemma post_attendance_cong_lookup:
  "getStudentDetails db (get body ''cardId'') = getStudentDetails db' (get body ''cardId'') \<Longrightarrow>
   attendance_add db = attendance_add db' \<Longrightarrow>
   post_attendance db now1 now2 body s = post_attendance db' now1 now2 body s"
  by (simp add: post_attendance_def Let_def saveToFirebase_def)

text \<open>
  Claim C5. For an accepted ingestion (the \<^verbatim>\<open>cardId\<close> truthy and with a string, as every
  string \<^verbatim>\<open>cardId\<close> is): when the lookup answers with at least one document, the record
  (the one pushed and the one sent back) embeds the first document as
  \<^verbatim>\<open>{ id, ...data }\<close>, so its \<^verbatim>\<open>name\<close> and \<^verbatim>\<open>class\<close> are that document's; when the lookup
  answers with no document or throws, the embedded student is exactly
  \<^verbatim>\<open>{ name: 'Unknown Student', class: 'N/A' }\<close>. Two stores that differ only in that the
  lookup of one finds nothing and the lookup of the other throws give the same outcome:
  the same response, the same arrays, the same calls.
\<close>

theorem student_is_embedded:
  assumes "truthy (get body ''cardId'')"
    and "printable (get body ''cardId'')"
  shows "\<exists>out. post_attendance db now1 now2 body s = Inr out
       \<and> status (sent out) = 201
       \<and> (students_where_cardId db (get body ''cardId'') = Inr (d # ds) \<longrightarrow>
            stored_student out = JObj (spread [(''id'', JStr (fst d))] (snd d))
          \<and> sent_student out = JObj (spread [(''id'', JStr (fst d))] (snd d))
          \<and> field (stored_student out) ''name'' = get (snd d) ''name''
          \<and> field (stored_student out) ''class'' = get (snd d) ''class''
          \<and> field (sent_student out) ''name'' = get (snd d) ''name''
          \<and> field (sent_student out) ''class'' = get (snd d) ''class'')
       \<and> (students_where_cardId db (get body ''cardId'') = Inr []
            \<or> students_where_cardId db (get body ''cardId'') = Inl e \<longrightarrow>
            stored_student out =
              JObj [(''name'', JStr ''Unknown Student''), (''class'', JStr ''N/A'')]
          \<and> sent_student out =
              JObj [(''name'', JStr ''Unknown Student''), (''class'', JStr ''N/A'')])
       \<and> post_attendance (db\<lparr>students_where_cardId := \<lambda>_. Inr []\<rparr>) now1 now2 body s =
           post_attendance (db\<lparr>students_where_cardId := \<lambda>_. Inl e\<rparr>) now1 now2 body s"
proof -
  from students_of_accepted [OF assms, of db now1 now2 s]
  obtain out where out: "post_attendance db now1 now2 body s = Inr out"
    and st: "status (sent out) = 201"
    and ss: "stored_student out = or_else (getStudentDetails db (get body ''cardId'')) unknown_student"
    and se: "sent_student out = or_else (getStudentDetails db (get body ''cardId'')) unknown_student"
    by blast
  have found: "students_where_cardId db (get body ''cardId'') = Inr (d # ds) \<longrightarrow>
            stored_student out = JObj (spread [(''id'', JStr (fst d))] (snd d))
          \<and> sent_student out = JObj (spread [(''id'', JStr (fst d))] (snd d))
          \<and> field (stored_student out) ''name'' = get (snd d) ''name''
          \<and> field (stored_student out) ''class'' = get (snd d) ''class''
          \<and> field (sent_student out) ''name'' = get (snd d) ''name''
          \<and> field (sent_student out) ''class'' = get (snd d) ''class''"
    by (simp add: ss se getStudentDetails_found or_else_def get_spread_id)
  have none: "students_where_cardId db (get body ''cardId'') = Inr []
            \<or> students_where_cardId db (get body ''cardId'') = Inl e \<longrightarrow>
            stored_student out =
              JObj [(''name'', JStr ''Unknown Student''), (''class'', JStr ''N/A'')]
          \<and> sent_student out =
              JObj [(''name'', JStr ''Unknown Student''), (''class'', JStr ''N/A'')]"
  proof
    assume "students_where_cardId db (get body ''cardId'') = Inr []
            \<or> students_where_cardId db (get body ''cardId'') = Inl e"
    from getStudentDetails_none [OF this] show "stored_student out =
              JObj [(''name'', JStr ''Unknown Student''), (''class'', JStr ''N/A'')]
          \<and> sent_student out =
              JObj [(''name'', JStr ''Unknown Student''), (''class'', JStr ''N/A'')]"
      by (simp add: ss se or_else_def unknown_student_def)
  qed
  have same: "post_attendance (db\<lparr>students_where_cardId := \<lambda>_. Inr []\<rparr>) now1 now2 body s =
        post_attendance (db\<lparr>students_where_cardId := \<lambda>_. Inl e\<rparr>) now1 now2 body s"
    by (rule post_attendance_cong_lookup) (simp_all add: getStudentDetails_def)
  from out st found none same show ?thesis by blast
qed

theorem student_is_embedded_witness:
  "truthy (get [(''cardId'', JStr ''CARD1'')] ''cardId'')
   \<and> printable (get [(''cardId'', JStr ''CARD1'')] ''cardId'')
   \<and> students_where_cardId reachable (JStr ''CARD1'') = Inr [asha]
   \<and> (\<exists>out. post_attendance reachable ''t1'' ''t2'' [(''cardId'', JStr ''CARD1'')] initial = Inr out
        \<and> field (stored_student out) ''name'' = JStr ''Asha''
        \<and> field (stored_student out) ''class'' = JStr ''5A'')
   \<and> students_where_cardId unreachable (JStr ''CARD1'') = Inl (Fault ''UNAVAILABLE'')
   \<and> (\<exists>out. post_attendance unreachable ''t1'' ''t2'' [(''cardId'', JStr ''CARD1'')] initial = Inr out
        \<and> sent_student out =
            JObj [(''name'', JStr ''Unknown Student''), (''class'', JStr ''N/A'')])"
proof -
  have h: "truthy (get [(''cardId'', JStr ''CARD1'')] ''cardId'')"
    and p: "printable (get [(''cardId'', JStr ''CARD1'')] ''cardId'')"
    by (simp_all add: get_def)
  have c: "get [(''cardId'', JStr ''CARD1'')] ''cardId'' = JStr ''CARD1''"
    by (simp add: get_def)
  have r: "students_where_cardId reachable (JStr ''CARD1'') = Inr [asha]"
    by (simp add: reachable_def)
  have u: "students_where_cardId unreachable (JStr ''CARD1'') = Inl (Fault ''UNAVAILABLE'')"
    by (simp add: unreachable_def)
  have a: "get (snd asha) ''name'' = JStr ''Asha''" "get (snd asha) ''class'' = JStr ''5A''"
    by (simp_all add: asha_def get_def)
  note R = student_is_embedded [OF h p, of reachable "''t1''" "''t2''" initial asha "[]"
      "Fault ''UNAVAILABLE''", unfolded c]
  note U = student_is_embedded [OF h p, of unreachable "''t1''" "''t2''" initial asha "[]"
      "Fault ''UNAVAILABLE''", unfolded c]
  from R r a have x: "\<exists>out. post_attendance reachable ''t1'' ''t2'' [(''cardId'', JStr ''CARD1'')]
          initial = Inr out
        \<and> field (stored_student out) ''name'' = JStr ''Asha''
        \<and> field (stored_student out) ''class'' = JStr ''5A''"
    by auto
  from U u have y: "\<exists>out. post_attendance unreachable ''t1'' ''t2'' [(''cardId'', JStr ''CARD1'')]
          initial = Inr out
        \<and> sent_student out =
            JObj [(''name'', JStr ''Unknown Student''), (''class'', JStr ''N/A'')]"
    by auto
  from h p r u x y show ?thesis by blast
qed

section \<open>Reading\<close>

text \<open>
  Claim C6. When the remote query throws, \<^verbatim>\<open>GET /attendance\<close> answers 200 with
  \<^verbatim>\<open>success: true\<close>, the whole of \<^verbatim>\<open>attendanceRecords\<close> in insertion order and
  \<^verbatim>\<open>source: 'memory'\<close>; \<^verbatim>\<open>GET /attendance/latest\<close> answers 200 with \<^verbatim>\<open>success: true\<close>
  and the first ten entries of the reversed array, that is at most the last ten entries,
  newest first. Whatever the store does, both answer 200 with \<^verbatim>\<open>success: true\<close>.
\<close>

theorem reads_fall_back_to_memory:
  "(attendance_latest db 100 = Inl e \<longrightarrow>
      sent (get_attendance db s) =
        \<lparr>status = 200,
         json = [(''success'', JBool True),
                 (''count'', js_length (s AttendanceRecords)),
                 (''data'', JArr (s AttendanceRecords)),
                 (''source'', JStr ''memory'')]\<rparr>)
   \<and> (attendance_latest db 10 = Inl e \<longrightarrow>
      sent (get_attendance_latest db s) =
        \<lparr>status = 200,
         json = [(''success'', JBool True),
                 (''count'', js_length (take 10 (rev (s AttendanceRecords)))),
                 (''data'', JArr (take 10 (rev (s AttendanceRecords))))]\<rparr>
      \<and> length (take 10 (rev (s AttendanceRecords))) \<le> 10)
   \<and> status (sent (get_attendance db s)) = 200
   \<and> get (json (sent (get_attendance db s))) ''success'' = JBool True
   \<and> status (sent (get_attendance_latest db s)) = 200
   \<and> get (json (sent (get_attendance_latest db s))) ''success'' = JBool True"
  by (simp add: get_attendance_def get_attendance_latest_def Let_def get_def rev_slice_last
      split: sum.splits)

theorem reads_fall_back_to_memory_witness:
  "attendance_latest unreachable 100 = Inl (Fault ''UNAVAILABLE'')
   \<and> attendance_latest unreachable 10 = Inl (Fault ''UNAVAILABLE'')
   \<and> get (json (sent (get_attendance unreachable
        (initial(AttendanceRecords := map JStr [''a'', ''b'', ''c'', ''d'', ''e'', ''f'', ''g'', ''h'',
           ''i'', ''j'', ''k'', ''l'']))))) ''data'' =
       JArr (map JStr [''a'', ''b'', ''c'', ''d'', ''e'', ''f'', ''g'', ''h'', ''i'', ''j'', ''k'', ''l''])
   \<and> get (json (sent (get_attendance_latest unreachable
        (initial(AttendanceRecords := map JStr [''a'', ''b'', ''c'', ''d'', ''e'', ''f'', ''g'', ''h'',
           ''i'', ''j'', ''k'', ''l'']))))) ''data'' =
       JArr (map JStr [''l'', ''k'', ''j'', ''i'', ''h'', ''g'', ''f'', ''e'', ''d'', ''c''])"
proof -
  have a: "attendance_latest unreachable 100 = Inl (Fault ''UNAVAILABLE'')"
    and b: "attendance_latest unreachable 10 = Inl (Fault ''UNAVAILABLE'')"
    by (simp_all add: unreachable_def)
  show ?thesis
    using a b
      reads_fall_back_to_memory [of unreachable "Fault ''UNAVAILABLE''"
        "initial(AttendanceRecords := map JStr [''a'', ''b'', ''c'', ''d'', ''e'', ''f'', ''g'', ''h'',
           ''i'', ''j'', ''k'', ''l''])"]
    by (simp add: get_def)
qed

text \<open>
  Claim C7. When the remote query of \<^verbatim>\<open>GET /attendance/today\<close> throws, the answer is 500
  with \<^verbatim>\<open>success: false\<close>, and it is the same answer whatever the arrays hold: the
  handler does not read \<^verbatim>\<open>attendanceRecords\<close>.
\<close>

theorem today_surfaces_fault:
  assumes "attendance_since db today = Inl e"
  shows "status (sent (get_attendance_today db today s)) = 500
       \<and> get (json (sent (get_attendance_today db today s))) ''success'' = JBool False
       \<and> sent (get_attendance_today db today s') = sent (get_attendance_today db today s)"
  using assms by (simp add: get_attendance_today_def get_def)

theorem today_surfaces_fault_witness:
  "attendance_since unreachable 1700000000000 = Inl (Fault ''UNAVAILABLE'')
   \<and> status (sent (get_attendance_today unreachable 1700000000000
        (initial(AttendanceRecords := [JStr ''a''])))) = 500
   \<and> sent (get_attendance_today unreachable 1700000000000 initial) =
       sent (get_attendance_today unreachable 1700000000000 (initial(AttendanceRecords := [JStr ''a''])))"
proof -
  have f: "attendance_since unreachable 1700000000000 = Inl (Fault ''UNAVAILABLE'')"
    by (simp add: unreachable_def)
  show ?thesis
    using f today_surfaces_fault [OF f, of "initial(AttendanceRecords := [JStr ''a''])" initial]
    by simp
qed

text \<open>The answer of \<^verbatim>\<open>GET /attendance/today\<close> never depends on the arrays.\<close>

lemma today_ignores_memory:
  "sent (get_attendance_today db today s') = sent (get_attendance_today db today s)"
  by (simp add: get_attendance_today_def Let_def split: sum.splits)

text \<open>
  Claim C10. The three reads leave \<^verbatim>\<open>attendanceRecords\<close> as it was, whether the store
  answers or throws. (The fallback of \<^verbatim>\<open>GET /attendance/latest\<close> reverses the array
  \<^verbatim>\<open>latest\<close> that \<^verbatim>\<open>slice\<close> made, not \<^verbatim>\<open>attendanceRecords\<close>.)
\<close>

theorem reads_keep_attendanceRecords:
  "mem (get_attendance db s) AttendanceRecords = s AttendanceRecords
   \<and> mem (get_attendance_latest db s) AttendanceRecords = s AttendanceRecords
   \<and> mem (get_attendance_today db today s) AttendanceRecords = s AttendanceRecords"
  by (simp add: get_attendance_def get_attendance_latest_def get_attendance_today_def Let_def
      split: sum.splits)

section \<open>Clearing\<close>

text \<open>
  Claim C8. \<^verbatim>\<open>DELETE /attendance/clear\<close> leaves \<^verbatim>\<open>attendanceRecords\<close> empty whatever it
  held, answers 200 with \<^verbatim>\<open>success: true\<close> and a message that carries, in decimal, the
  number of entries the array held, and issues no remote call. A fallback read of all
  records after it gives the empty sequence.
\<close>

theorem clear_empties_and_counts:
  "mem (delete_attendance_clear s) AttendanceRecords = []
   \<and> length (mem (delete_attendance_clear s) AttendanceRecords) = 0
   \<and> status (sent (delete_attendance_clear s)) = 200
   \<and> get (json (sent (delete_attendance_clear s))) ''success'' = JBool True
   \<and> get (json (sent (delete_attendance_clear s))) ''message'' =
       JStr (''Cleared '' @ decimal (length (s AttendanceRecords)) @
             '' local records (Firebase data unchanged)'')
   \<and> cleared_count (get (json (sent (delete_attendance_clear s))) ''message'') =
       length (s AttendanceRecords)
   \<and> calls (delete_attendance_clear s) = []
   \<and> get (json (sent (get_attendance unreachable (mem (delete_attendance_clear s))))) ''data'' = JArr []"
proof -
  have m: "get (json (sent (delete_attendance_clear s))) ''message'' =
       JStr (''Cleared '' @ decimal (length (s AttendanceRecords)) @
             '' local records (Firebase data unchanged)'')"
    by (simp add: delete_attendance_clear_def Let_def get_def)
  have c: "cleared_count (get (json (sent (delete_attendance_clear s))) ''message'') =
       length (s AttendanceRecords)"
    unfolding m by (rule cleared_count_message)
  have r: "get (json (sent (get_attendance unreachable (mem (delete_attendance_clear s))))) ''data'' = JArr []"
    by (simp add: get_attendance_def unreachable_def delete_attendance_clear_def Let_def get_def)
  show ?thesis
    using m c r by (simp add: delete_attendance_clear_def Let_def get_def)
qed

section \<open>Registration\<close>

lemma register_rejected:
  "\<not> truthy (get body ''cardId'') \<or> \<not> truthy (get body ''name'') \<Longrightarrow>
   post_students_register db body s =
     \<lparr>sent = \<lparr>status = 400,
               json = [(''success'', JBool False),
                       (''message'', JStr ''cardId and name are required'')]\<rparr>,
      mem = s,
      calls = []\<rparr>"
  by (simp add: post_students_register_def Let_def)

lemma register_faulted:
  "truthy (get body ''cardId'') \<Longrightarrow> truthy (get body ''name'') \<Longrightarrow>
   students_add db (student_document body) = Inl e \<Longrightarrow>
   post_students_register db body s =
     \<lparr>sent = \<lparr>status = 500,
               json = [(''success'', JBool False),
                       (''message'', JStr ''Failed to register student'')]\<rparr>,
      mem = s,
      calls = [StudentsAdd (student_document body)]\<rparr>"
  by (simp add: post_students_register_def Let_def)

lemma register_written:
  "truthy (get body ''cardId'') \<Longrightarrow> truthy (get body ''name'') \<Longrightarrow>
   students_add db (student_document body) = Inr docId \<Longrightarrow>
   post_students_register db body s =
     \<lparr>sent = \<lparr>status = 201,
               json = [(''success'', JBool True),
                       (''message'', JStr ''Student registered successfully''),
                       (''data'', JObj [(''id'', JStr docId),
                                        (''cardId'', get body ''cardId''),
                                        (''name'', get body ''name'')])]\<rparr>,
      mem = s,
      calls = [StudentsAdd (student_document body)]\<rparr>"
  by (simp add: post_students_register_def Let_def)

lemma register_calls:
  "truthy (get body ''cardId'') \<Longrightarrow> truthy (get body ''name'') \<Longrightarrow>
   calls (post_students_register db body s) = [StudentsAdd (student_document body)]"
  by (cases "students_add db (student_document body)")
     (simp_all add: register_faulted register_written)

lemma student_document_fields:
  "get (student_document body) ''cardId'' = get body ''cardId''"
  "get (student_document body) ''name'' = get body ''name''"
  "get (student_document body) ''class'' = or_else (get body ''studentClass'') (JStr ''N/A'')"
  "get (student_document body) ''rollNumber'' = or_else (get body ''rollNumber'') (JStr ''N/A'')"
  by (simp_all add: student_document_def get_def [of "_ # _"])

text \<open>
  Claim C9. A registration whose \<^verbatim>\<open>cardId\<close> or \<^verbatim>\<open>name\<close> is absent (or falsy in another
  way) is answered 400 with \<^verbatim>\<open>success: false\<close> and adds no document. With both present
  (truthy) the handler adds one document to \<^verbatim>\<open>students\<close>, carrying the \<^verbatim>\<open>cardId\<close> and
  \<^verbatim>\<open>name\<close> and, for \<^verbatim>\<open>class\<close> and \<^verbatim>\<open>rollNumber\<close>, the body's \<^verbatim>\<open>studentClass\<close> and
  \<^verbatim>\<open>rollNumber\<close> or \<^verbatim>\<open>'N/A'\<close> where the body has none; when the store throws on that
  write the answer is 500 with \<^verbatim>\<open>success: false\<close>, otherwise 201 with the new identifier.
\<close>

theorem registration:
  "((\<not> truthy (get body ''cardId'') \<or> \<not> truthy (get body ''name'')) \<longrightarrow>
       status (sent (post_students_register db body s)) = 400
     \<and> get (json (sent (post_students_register db body s))) ''success'' = JBool False
     \<and> calls (post_students_register db body s) = []
     \<and> mem (post_students_register db body s) = s)
   \<and> (truthy (get body ''cardId'') \<and> truthy (get body ''name'') \<longrightarrow>
       calls (post_students_register db body s) = [StudentsAdd (student_document body)]
     \<and> get (student_document body) ''cardId'' = get body ''cardId''
     \<and> get (student_document body) ''name'' = get body ''name''
     \<and> get (student_document body) ''class'' =
         (if truthy (get body ''studentClass'') then get body ''studentClass'' else JStr ''N/A'')
     \<and> get (student_document body) ''rollNumber'' =
         (if truthy (get body ''rollNumber'') then get body ''rollNumber'' else JStr ''N/A'')
     \<and> (students_add db (student_document body) = Inl e \<longrightarrow>
           status (sent (post_students_register db body s)) = 500
         \<and> get (json (sent (post_students_register db body s))) ''success'' = JBool False)
     \<and> (students_add db (student_document body) = Inr docId \<longrightarrow>
           status (sent (post_students_register db body s)) = 201
         \<and> get (data_of (post_students_register db body s)) ''id'' = JStr docId))"
proof (intro conjI impI)
  assume "\<not> truthy (get body ''cardId'') \<or> \<not> truthy (get body ''name'')"
  note r = register_rejected [OF this, of db s]
  show "status (sent (post_students_register db body s)) = 400"
    and "get (json (sent (post_students_register db body s))) ''success'' = JBool False"
    and "calls (post_students_register db body s) = []"
    and "mem (post_students_register db body s) = s"
    by (simp_all add: r get_def)
next
  assume "truthy (get body ''cardId'') \<and> truthy (get body ''name'')"
  then show "calls (post_students_register db body s) = [StudentsAdd (student_document body)]"
    by (simp add: register_calls)
next
  show "get (student_document body) ''cardId'' = get body ''cardId''"
    and "get (student_document body) ''name'' = get body ''name''"
    and "get (student_document body) ''class'' =
         (if truthy (get body ''studentClass'') then get body ''studentClass'' else JStr ''N/A'')"
    and "get (student_document body) ''rollNumber'' =
         (if truthy (get body ''rollNumber'') then get body ''rollNumber'' else JStr ''N/A'')"
    by (simp_all add: student_document_fields or_else_def)
next
  assume a: "truthy (get body ''cardId'') \<and> truthy (get body ''name'')"
    and f: "students_add db (student_document body) = Inl e"
  from a f show "status (sent (post_students_register db body s)) = 500"
    and "get (json (sent (post_students_register db body s))) ''success'' = JBool False"
    by (simp_all add: register_faulted get_def)
next
  assume a: "truthy (get body ''cardId'') \<and> truthy (get body ''name'')"
    and w: "students_add db (student_document body) = Inr docId"
  from a w show "status (sent (post_students_register db body s)) = 201"
    and "get (data_of (post_students_register db body s)) ''id'' = JStr docId"
    by (simp_all add: register_written get_def data_of_def)
qed

theorem registration_witness:
  "\<not> truthy (get [(''cardId'', JStr ''CARD2'')] ''name'')
   \<and> status (sent (post_students_register reachable [(''cardId'', JStr ''CARD2'')] initial)) = 400
   \<and> calls (post_students_register reachable [(''cardId'', JStr ''CARD2'')] initial) = []
   \<and> truthy (get [(''cardId'', JStr ''CARD2''), (''name'', JStr ''Ravi'')] ''cardId'')
   \<and> truthy (get [(''cardId'', JStr ''CARD2''), (''name'', JStr ''Ravi'')] ''name'')
   \<and> calls (post_students_register unreachable
        [(''cardId'', JStr ''CARD2''), (''name'', JStr ''Ravi'')] initial) =
       [StudentsAdd [(''cardId'', JStr ''CARD2''), (''name'', JStr ''Ravi''),
          (''class'', JStr ''N/A''), (''rollNumber'', JStr ''N/A''),
          (''registeredAt'', JServerTimestamp)]]
   \<and> status (sent (post_students_register unreachable
        [(''cardId'', JStr ''CARD2''), (''name'', JStr ''Ravi'')] initial)) = 500
   \<and> status (sent (post_students_register reachable
        [(''cardId'', JStr ''CARD2''), (''name'', JStr ''Ravi'')] initial)) = 201"
proof -
  have n: "\<not> truthy (get [(''cardId'', JStr ''CARD2'')] ''name'')"
    by (simp add: get_def)
  have c: "truthy (get [(''cardId'', JStr ''CARD2''), (''name'', JStr ''Ravi'')] ''cardId'')"
    and m: "truthy (get [(''cardId'', JStr ''CARD2''), (''name'', JStr ''Ravi'')] ''name'')"
    by (simp_all add: get_def)
  have d: "student_document [(''cardId'', JStr ''CARD2''), (''name'', JStr ''Ravi'')] =
      [(''cardId'', JStr ''CARD2''), (''name'', JStr ''Ravi''),
       (''class'', JStr ''N/A''), (''rollNumber'', JStr ''N/A''),
       (''registeredAt'', JServerTimestamp)]"
    by (simp add: student_document_def get_def or_else_def)
  have u: "students_add unreachable (student_document [(''cardId'', JStr ''CARD2''), (''name'', JStr ''Ravi'')])
      = Inl (Fault ''UNAVAILABLE'')"
    by (simp add: unreachable_def)
  have r: "students_add reachable (student_document [(''cardId'', JStr ''CARD2''), (''name'', JStr ''Ravi'')])
      = Inr ''doc1''"
    by (simp add: reachable_def)
  show ?thesis
    using n c m u r
      registration [of "[(''cardId'', JStr ''CARD2'')]" reachable initial]
      registration [of "[(''cardId'', JStr ''CARD2''), (''name'', JStr ''Ravi'')]" unreachable initial
        "Fault ''UNAVAILABLE''"]
      registration [of "[(''cardId'', JStr ''CARD2''), (''name'', JStr ''Ravi'')]" reachable initial
        _ "''doc1''"]
    by (simp add: d)
qed

end
